theory Spec2Isabelle
  imports Complex_Main
begin

section \<open>The local inference service (src/ml/inference\_service.py)\<close>

text \<open>
  A shallow embedding of the serving code: the license verifier, the model cache with its
  loader, the feature vector of a request, the demand handler and the post-processing of
  the pricing, fraud and churn handlers.

  Conventions of the embedding.
  \<^item> Points in time (\<^verbatim>\<open>datetime.now()\<close>) are integers, counted in microseconds, and
    are passed to the function that reads the clock.
  \<^item> The process environment and the files under \<^verbatim>\<open>./models\<close> are arguments.
  \<^item> A Python float is a double: a real number, an infinity or \<^verbatim>\<open>nan\<close>. Arithmetic on
    doubles, the conversion to \<^verbatim>\<open>float32\<close> and \<^verbatim>\<open>round\<close> on a float round as IEEE 754 and
    Python prescribe. The scores of the fraud and churn handlers are only compared, and
    are kept as the real numbers they are.
  \<^item> A raised exception is the \<open>Inl\<close> of a sum, a returned value its \<open>Inr\<close>.
  \<^item> Strings are byte lists; \<^verbatim>\<open>len\<close> is \<open>length\<close>, which agrees with Python on ASCII keys.
\<close>

subsection \<open>License verification\<close>

type_synonym timestamp = int

definition timedelta_days :: "int \<Rightarrow> int" where
  "timedelta_days d = d * 86400000000"

record LicenseVerifier =
  license_key :: "string option"
  is_valid :: bool
  expires_at :: "timestamp option"
  features :: "(string \<times> bool) list"

text \<open>Truth value of an \<^verbatim>\<open>Optional[str]\<close>: \<^verbatim>\<open>None\<close> and the empty string are false.\<close>

definition truthy :: "string option \<Rightarrow> bool" where
  "truthy k = (case k of None \<Rightarrow> False | Some s \<Rightarrow> s \<noteq> [])"

text \<open>\<^verbatim>\<open>a or b\<close> on optional strings.\<close>

definition py_or :: "string option \<Rightarrow> string option \<Rightarrow> string option" where
  "py_or a b = (if truthy a then a else b)"

definition licensed_features :: "(string \<times> bool) list" where
  "licensed_features =
     [(''demand_forecasting'', True),
      (''dynamic_pricing'', True),
      (''guest_churn'', True),
      (''fraud_detection'', True),
      (''maintenance_prediction'', True)]"

text \<open>
  \<^verbatim>\<open>LicenseVerifier.verify\<close>: a key longer than 20 characters is accepted for 30 days from
  the moment of verification. Nothing in the body raises on a string key, so the
  \<^verbatim>\<open>except\<close> branch is never entered; the result is the returned flag and the object.
\<close>

definition verify :: "timestamp \<Rightarrow> LicenseVerifier \<Rightarrow> bool \<times> LicenseVerifier" where
  "verify now v =
     (case license_key v of
        None \<Rightarrow> (False, v)
      | Some k \<Rightarrow>
          if k \<noteq> [] \<and> length k > 20
          then (True, v\<lparr>is_valid := True,
                         expires_at := Some (now + timedelta_days 30),
                         features := licensed_features\<rparr>)
          else (False, v))"

text \<open>
  \<^verbatim>\<open>LicenseVerifier.__init__\<close>; \<open>env\<close> is \<^verbatim>\<open>os.environ.get('LICENSE_KEY')\<close>.
\<close>

definition LicenseVerifier_init ::
  "string option \<Rightarrow> string option \<Rightarrow> timestamp \<Rightarrow> LicenseVerifier" where
  "LicenseVerifier_init env key now =
     (let v = \<lparr>license_key = py_or key env, is_valid = False,
                expires_at = None, features = []\<rparr>
      in if truthy (license_key v) then snd (verify now v) else v)"

text \<open>\<^verbatim>\<open>dict.get(key, default)\<close> on a dictionary given by its items.\<close>

definition dict_get :: "(string \<times> 'v) list \<Rightarrow> string \<Rightarrow> 'v \<Rightarrow> 'v" where
  "dict_get d k dflt = (case map_of d k of None \<Rightarrow> dflt | Some x \<Rightarrow> x)"

text \<open>\<^verbatim>\<open>LicenseVerifier.can_use_feature\<close>, with the clock read at the call.\<close>

definition can_use_feature :: "timestamp \<Rightarrow> LicenseVerifier \<Rightarrow> string \<Rightarrow> bool" where
  "can_use_feature now v feature =
     (if \<not> is_valid v then False
      else if (case expires_at v of None \<Rightarrow> False | Some e \<Rightarrow> now > e) then False
      else dict_get (features v) feature False)"

text \<open>
  \<^verbatim>\<open>verify_license\<close>: \<open>header\<close> is \<^verbatim>\<open>request.headers.get('X-License-Key')\<close>.
\<close>

definition verify_license ::
  "string option \<Rightarrow> string option \<Rightarrow> timestamp \<Rightarrow> LicenseVerifier" where
  "verify_license env header now = LicenseVerifier_init env header now"

subsection \<open>Exceptions\<close>

text \<open>
  The exceptions of the service. An \<^verbatim>\<open>HTTPException\<close> carries its status code and its
  detail; a detail that the source formats from a caught exception (\<^verbatim>\<open>str(e)\<close>) carries
  that exception.
\<close>

datatype py_error =
  ValueError | TypeError | KeyError | AttributeError | ZeroDivisionError | OverflowError
  | FileNotFoundError | UnpicklingError | JSONDecodeError

datatype msg =
  Feature_not_available
  | Model_not_found string
  | Error_loading_model exn
  | Prediction_error exn
and exn =
  PyError py_error
  | HTTPException nat msg

fun status_code :: "exn \<Rightarrow> nat option" where
  "status_code (HTTPException c _) = Some c"
| "status_code (PyError _) = None"

definition bind_err :: "'e + 'a \<Rightarrow> ('a \<Rightarrow> 'e + 'b) \<Rightarrow> 'e + 'b" where
  "bind_err r f = (case r of Inl e \<Rightarrow> Inl e | Inr x \<Rightarrow> f x)"

subsection \<open>Binary floating point\<close>

text \<open>A float: a real number, an infinity or \<^verbatim>\<open>nan\<close>.\<close>

datatype npfloat = Num real | PosInf | NegInf | NaN

text \<open>The nearest integer, a tie to the even one.\<close>

definition round_half_even :: "real \<Rightarrow> int" where
  "round_half_even y =
     (let f = \<lfloor>y\<rfloor>; d = y - of_int f
      in if d < 1 / 2 then f else if d > 1 / 2 then f + 1 else if even f then f else f + 1)"

definition pow2 :: "int \<Rightarrow> real" where
  "pow2 k = (if 0 \<le> k then 2 ^ nat k else 1 / 2 ^ nat (- k))"

text \<open>
  Rounding of a real number to the binary format with \<open>p\<close> significant bits, least
  normal exponent \<open>emin\<close> and overflow at \<open>2\<^bsup>emax\<^esup>\<close>: to the nearest number of the
  format, a tie to the even significand; at and beyond the overflow threshold the result
  is an infinity.
\<close>

definition ieee_round :: "nat \<Rightarrow> int \<Rightarrow> int \<Rightarrow> real \<Rightarrow> npfloat" where
  "ieee_round p emin emax x =
     (if x = 0 then Num 0
      else
        let e = max \<lfloor>log 2 \<bar>x\<bar>\<rfloor> emin;
            q = pow2 (e - int p + 1);
            r = of_int (round_half_even (x / q)) * q
        in if pow2 emax \<le> \<bar>r\<bar> then (if 0 < x then PosInf else NegInf) else Num r)"

definition float64_round :: "real \<Rightarrow> npfloat" where
  "float64_round = ieee_round 53 (- 1022) 1024"

definition float32_round :: "real \<Rightarrow> npfloat" where
  "float32_round = ieee_round 24 (- 126) 128"

text \<open>The cast of a double to \<^verbatim>\<open>float32\<close>.\<close>

definition float32_cast :: "npfloat \<Rightarrow> npfloat" where
  "float32_cast a = (case a of Num x \<Rightarrow> float32_round x | _ \<Rightarrow> a)"

text \<open>\<^verbatim>\<open>a < b\<close> on floats: false whenever \<^verbatim>\<open>nan\<close> takes part.\<close>

fun float_lt :: "npfloat \<Rightarrow> npfloat \<Rightarrow> bool" where
  "float_lt (Num x) (Num y) = (x < y)"
| "float_lt NaN b = False"
| "float_lt a NaN = False"
| "float_lt PosInf b = False"
| "float_lt a PosInf = True"
| "float_lt NegInf NegInf = False"
| "float_lt NegInf b = True"
| "float_lt a NegInf = False"

text \<open>Product, difference and quotient of two doubles; Python raises on a zero divisor.\<close>

fun float64_mul :: "npfloat \<Rightarrow> npfloat \<Rightarrow> npfloat" where
  "float64_mul (Num x) (Num y) = float64_round (x * y)"
| "float64_mul NaN b = NaN"
| "float64_mul a NaN = NaN"
| "float64_mul (Num x) b =
     (if x = 0 then NaN else if (0 < x) = (b = PosInf) then PosInf else NegInf)"
| "float64_mul a (Num y) =
     (if y = 0 then NaN else if (0 < y) = (a = PosInf) then PosInf else NegInf)"
| "float64_mul a b = (if a = b then PosInf else NegInf)"

fun float64_sub :: "npfloat \<Rightarrow> npfloat \<Rightarrow> npfloat" where
  "float64_sub (Num x) (Num y) = float64_round (x - y)"
| "float64_sub NaN b = NaN"
| "float64_sub a NaN = NaN"
| "float64_sub (Num x) b = (if b = PosInf then NegInf else PosInf)"
| "float64_sub a (Num y) = a"
| "float64_sub a b = (if a = b then NaN else a)"

fun float64_div :: "npfloat \<Rightarrow> npfloat \<Rightarrow> py_error + npfloat" where
  "float64_div a (Num y) =
     (if y = 0 then Inl ZeroDivisionError
      else case a of
             Num x \<Rightarrow> Inr (float64_round (x / y))
           | NaN \<Rightarrow> Inr NaN
           | _ \<Rightarrow> Inr (if (0 < y) = (a = PosInf) then PosInf else NegInf))"
| "float64_div NaN b = Inr NaN"
| "float64_div a NaN = Inr NaN"
| "float64_div (Num x) b = Inr (Num 0)"
| "float64_div a b = Inr NaN"

text \<open>
  \<^verbatim>\<open>round(a, ndigits)\<close> on a Python float: the decimal with \<open>ndigits\<close> places nearest to the
  exact value of \<open>a\<close>, a tie to the even one, and of that decimal the nearest double.
  Infinities and \<^verbatim>\<open>nan\<close> round to themselves.
\<close>

definition python_round :: "npfloat \<Rightarrow> nat \<Rightarrow> py_error + npfloat" where
  "python_round a ndigits =
     (case a of
        Num x \<Rightarrow>
          (case float64_round (of_int (round_half_even (x * 10 ^ ndigits)) / 10 ^ ndigits) of
             Num y \<Rightarrow> Inr (Num y)
           | _ \<Rightarrow> Inl OverflowError)
      | _ \<Rightarrow> Inr a)"

subsection \<open>Request values and the feature vector\<close>

text \<open>
  Values of a decoded JSON body (arrays are not represented). \<open>PyFloat x\<close> is a number
  written with a fraction or an exponent: Python holds the double nearest to \<open>x\<close>.
\<close>

datatype pyval =
  PyNone | PyBool bool | PyInt int | PyFloat real | PyStr string
  | PyDict "(string \<times> pyval) list"

text \<open>
  The conversion \<^verbatim>\<open>np.array(..., dtype=np.float32)\<close> applies to one entry. It belongs to
  numpy, not to the repository. A float is cast to \<^verbatim>\<open>float32\<close>; an integer is first made a
  double, which raises \<^verbatim>\<open>OverflowError\<close> beyond the range of doubles; a boolean is 0 or 1;
  \<^verbatim>\<open>None\<close> is \<^verbatim>\<open>nan\<close>; a string is what numpy reads from it (\<open>str_to_float\<close>, a parameter,
  \<open>None\<close> where numpy raises \<^verbatim>\<open>ValueError\<close>); a dictionary raises \<^verbatim>\<open>TypeError\<close>.
\<close>

fun np_float32 :: "(string \<Rightarrow> npfloat option) \<Rightarrow> pyval \<Rightarrow> py_error + npfloat" where
  "np_float32 str_to_float PyNone = Inr NaN"
| "np_float32 str_to_float (PyBool b) = Inr (Num (if b then 1 else 0))"
| "np_float32 str_to_float (PyInt n) =
     (case float64_round (of_int n) of
        Num y \<Rightarrow> Inr (float32_round y)
      | _ \<Rightarrow> Inl OverflowError)"
| "np_float32 str_to_float (PyFloat x) = Inr (float32_cast (float64_round x))"
| "np_float32 str_to_float (PyStr s) =
     (case str_to_float s of None \<Rightarrow> Inl ValueError | Some a \<Rightarrow> Inr a)"
| "np_float32 str_to_float (PyDict d) = Inl TypeError"

text \<open>One row of the array: the first entry that does not convert raises.\<close>

fun np_array_row :: "(string \<Rightarrow> npfloat option) \<Rightarrow> pyval list \<Rightarrow> py_error + npfloat list" where
  "np_array_row str_to_float [] = Inr []"
| "np_array_row str_to_float (v # vs) =
     bind_err (np_float32 str_to_float v) (\<lambda>x.
     bind_err (np_array_row str_to_float vs) (\<lambda>xs. Inr (x # xs)))"

text \<open>
  \<^verbatim>\<open>np.array([[features_dict.get(f, 0) for f in feature_list]], dtype=np.float32)\<close>
\<close>

definition feature_vector ::
  "(string \<Rightarrow> npfloat option) \<Rightarrow> string list \<Rightarrow> (string \<times> pyval) list \<Rightarrow> py_error + npfloat list" where
  "feature_vector str_to_float feature_list features_dict =
     np_array_row str_to_float (map (\<lambda>f. dict_get features_dict f (PyInt 0)) feature_list)"

subsection \<open>Model files and the model cache\<close>

text \<open>
  An unpickled object is an estimator, given by what its \<^verbatim>\<open>predict(X)[0]\<close> returns or
  raises, or a dictionary of objects. A metadata document is read at the keys the
  service uses.
\<close>

datatype pyobj =
  Estimator "npfloat list \<Rightarrow> py_error + real"
  | ObjDict "(string \<times> pyobj) list"

record model_metadata =
  feature_schema :: "string list option"
  model_version :: "string option"
  evaluation_metrics :: "(string \<times> real) list option"
  unsupervised_metrics :: "(string \<times> real) list option"

datatype stored_file = PickleFile pyobj | JsonFile model_metadata | Garbage

type_synonym storage = "string \<Rightarrow> stored_file option"

record artifact =
  model :: pyobj
  metadata :: model_metadata
  loaded_at :: timestamp

text \<open>
  The state that outlives a request: the dictionary \<^verbatim>\<open>LOADED_MODELS\<close>, and a trace of the
  storage operations performed so far. The trace is not a variable of the program; it
  makes visible whether a call touched the storage.
\<close>

datatype io = Exists string | Open string

record state =
  LOADED_MODELS :: "string \<Rightarrow> artifact option"
  io_trace :: "io list"

definition model_path :: "string \<Rightarrow> string" where
  "model_path model_name = ''models/'' @ model_name @ ''.pkl''"

definition metadata_path :: "string \<Rightarrow> string" where
  "metadata_path model_name = ''models/'' @ model_name @ ''_metadata.json''"

definition path_exists :: "storage \<Rightarrow> string \<Rightarrow> bool" where
  "path_exists fs p = (case fs p of None \<Rightarrow> False | Some _ \<Rightarrow> True)"

definition pickle_load :: "storage \<Rightarrow> string \<Rightarrow> py_error + pyobj" where
  "pickle_load fs p =
     (case fs p of
        None \<Rightarrow> Inl FileNotFoundError
      | Some (PickleFile obj) \<Rightarrow> Inr obj
      | Some _ \<Rightarrow> Inl UnpicklingError)"

definition json_load :: "storage \<Rightarrow> string \<Rightarrow> py_error + model_metadata" where
  "json_load fs p =
     (case fs p of
        None \<Rightarrow> Inl FileNotFoundError
      | Some (JsonFile md) \<Rightarrow> Inr md
      | Some _ \<Rightarrow> Inl JSONDecodeError)"

definition traced :: "io \<Rightarrow> state \<Rightarrow> state" where
  "traced ev s = s\<lparr>io_trace := io_trace s @ [ev]\<rparr>"

text \<open>\<^verbatim>\<open>load_model\<close>: the result or the exception, and the state after the call.\<close>

definition load_model ::
  "storage \<Rightarrow> timestamp \<Rightarrow> state \<Rightarrow> string \<Rightarrow> (exn + artifact) \<times> state" where
  "load_model fs now s model_name =
     (case LOADED_MODELS s model_name of
        Some cached \<Rightarrow> (Inr cached, s)
      | None \<Rightarrow>
          let s1 = traced (Exists (model_path model_name)) s in
          if \<not> path_exists fs (model_path model_name)
          then (Inl (HTTPException 404 (Model_not_found model_name)), s1)
          else
            let s2 = traced (Open (model_path model_name)) s1 in
            (case pickle_load fs (model_path model_name) of
               Inl e \<Rightarrow> (Inl (HTTPException 500 (Error_loading_model (PyError e))), s2)
             | Inr model_data \<Rightarrow>
                 let s3 = traced (Open (metadata_path model_name)) s2 in
                 (case json_load fs (metadata_path model_name) of
                    Inl e \<Rightarrow> (Inl (HTTPException 500 (Error_loading_model (PyError e))), s3)
                  | Inr md \<Rightarrow>
                      let result = \<lparr>model = model_data, metadata = md, loaded_at = now\<rparr>
                      in (Inr result,
                          s3\<lparr>LOADED_MODELS := (LOADED_MODELS s3)(model_name \<mapsto> result)\<rparr>))))"

subsection \<open>The demand handler\<close>

record demand_response =
  property_id :: pyval
  room_type :: pyval
  resp_model_version :: "string option"
  forecast_value :: real
  confidence :: real
  resp_timestamp :: timestamp

text \<open>\<^verbatim>\<open>obj[key]\<close> on an unpickled object.\<close>

definition subscript :: "pyobj \<Rightarrow> string \<Rightarrow> py_error + pyobj" where
  "subscript obj k =
     (case obj of
        Estimator _ \<Rightarrow> Inl TypeError
      | ObjDict d \<Rightarrow> (case map_of d k of None \<Rightarrow> Inl KeyError | Some x \<Rightarrow> Inr x))"

text \<open>\<^verbatim>\<open>obj.predict(X)[0]\<close>\<close>

definition predict0 :: "pyobj \<Rightarrow> npfloat list \<Rightarrow> py_error + real" where
  "predict0 obj X = (case obj of Estimator f \<Rightarrow> f X | ObjDict _ \<Rightarrow> Inl AttributeError)"

text \<open>
  The vector of the demand handler, where \<open>features_val\<close> is
  \<^verbatim>\<open>request_data.get('features', {})\<close>: a value that is no dictionary has no \<^verbatim>\<open>get\<close>,
  which shows at the first feature looked up.
\<close>

definition demand_features ::
  "(string \<Rightarrow> npfloat option) \<Rightarrow> string list \<Rightarrow> pyval \<Rightarrow> py_error + npfloat list" where
  "demand_features str_to_float feature_list features_val =
     (case features_val of
        PyDict features_dict \<Rightarrow> feature_vector str_to_float feature_list features_dict
      | _ \<Rightarrow> if feature_list = [] then Inr [] else Inl AttributeError)"

definition opt_default :: "'a option \<Rightarrow> 'a \<Rightarrow> 'a" where
  "opt_default x dflt = (case x of None \<Rightarrow> dflt | Some y \<Rightarrow> y)"

text \<open>The body of the \<^verbatim>\<open>try\<close> block of \<^verbatim>\<open>predict_demand\<close> after \<^verbatim>\<open>load_model\<close> returned.\<close>

definition demand_body ::
  "(string \<Rightarrow> npfloat option) \<Rightarrow> timestamp \<Rightarrow> (string \<times> pyval) list \<Rightarrow> artifact
     \<Rightarrow> py_error + demand_response" where
  "demand_body str_to_float now request_data model_data =
     bind_err (subscript (model model_data) ''model'') (\<lambda>mdl.
       let md = metadata model_data;
           features_val = dict_get request_data ''features'' (PyDict []);
           feature_list = opt_default (feature_schema md) []
       in bind_err (demand_features str_to_float feature_list features_val) (\<lambda>X.
          bind_err (predict0 mdl X) (\<lambda>prediction.
            Inr \<lparr>property_id = dict_get request_data ''property_id'' PyNone,
                 room_type = dict_get request_data ''room_type'' PyNone,
                 resp_model_version = model_version md,
                 forecast_value = prediction,
                 confidence = dict_get (opt_default (evaluation_metrics md) []) ''test_mape'' 0.15,
                 resp_timestamp = now\<rparr>)))"

text \<open>
  \<^verbatim>\<open>predict_demand\<close>. The license check stands before the \<^verbatim>\<open>try\<close>; \<^verbatim>\<open>load_model\<close> and
  the rest stand inside it, and \<^verbatim>\<open>except Exception\<close> catches what they raise, an
  \<^verbatim>\<open>HTTPException\<close> included, and raises status 500.
\<close>

definition predict_demand ::
  "(string \<Rightarrow> npfloat option) \<Rightarrow> string option \<Rightarrow> storage \<Rightarrow> timestamp \<Rightarrow> state
     \<Rightarrow> string option \<Rightarrow> (string \<times> pyval) list \<Rightarrow> (exn + demand_response) \<times> state" where
  "predict_demand str_to_float env fs now s header request_data =
     (let license = verify_license env header now in
      if \<not> can_use_feature now license ''demand_forecasting''
      then (Inl (HTTPException 403 Feature_not_available), s)
      else
        (case load_model fs now s ''demand_forecast'' of
           (Inl e, s') \<Rightarrow> (Inl (HTTPException 500 (Prediction_error e)), s')
         | (Inr model_data, s') \<Rightarrow>
             (case demand_body str_to_float now request_data model_data of
                Inl e \<Rightarrow> (Inl (HTTPException 500 (Prediction_error (PyError e))), s')
              | Inr response \<Rightarrow> (Inr response, s'))))"

subsection \<open>Post-processing of the pricing, fraud and churn handlers\<close>

text \<open>Rounding of a score to \<open>n\<close> decimal places.\<close>

definition py_round :: "real \<Rightarrow> nat \<Rightarrow> real" where
  "py_round x n = of_int (round_half_even (x * 10 ^ n)) / 10 ^ n"

text \<open>
  The prediction \<^verbatim>\<open>model.predict(X)[0]\<close> is a numpy scalar with a finite value. Its
  precision and the arithmetic numpy does on it depend on the model and on numpy, so
  the scalar is given by its value and by what the operations of the handler return on
  it: \<open>np_round2\<close> is \<^verbatim>\<open>float(round(r, 2))\<close>, and \<open>np_change_pct r current_price\<close> is
  \<^verbatim>\<open>float(round(((r - current_price) / current_price) * 100, 2))\<close>.
\<close>

record np_scalar =
  np_value :: real
  np_round2 :: real
  np_change_pct :: "pyval \<Rightarrow> py_error + real"

text \<open>
  A number of the handler: a Python float or the numpy scalar. The two are compared by
  their values.
\<close>

datatype number = Py npfloat | Np np_scalar

fun number_value :: "number \<Rightarrow> npfloat" where
  "number_value (Py a) = a"
| "number_value (Np r) = Num (np_value r)"

text \<open>
  Python's two-argument \<^verbatim>\<open>min\<close> and \<^verbatim>\<open>max\<close> return the first argument unless the second
  is smaller, respectively greater.
\<close>

definition py_min :: "number \<Rightarrow> number \<Rightarrow> number" where
  "py_min x y = (if float_lt (number_value y) (number_value x) then y else x)"

definition py_max :: "number \<Rightarrow> number \<Rightarrow> number" where
  "py_max x y = (if float_lt (number_value x) (number_value y) then y else x)"

text \<open>
  The double a request value becomes when it is multiplied with a float: a string,
  \<^verbatim>\<open>None\<close> or a dictionary raises \<^verbatim>\<open>TypeError\<close>, an integer beyond the doubles
  \<^verbatim>\<open>OverflowError\<close>.
\<close>

fun as_double :: "pyval \<Rightarrow> py_error + npfloat" where
  "as_double (PyFloat x) = Inr (float64_round x)"
| "as_double (PyInt n) =
     (case float64_round (of_int n) of Num y \<Rightarrow> Inr (Num y) | _ \<Rightarrow> Inl OverflowError)"
| "as_double (PyBool b) = Inr (Num (if b then 1 else 0))"
| "as_double v = Inl TypeError"

record pricing_numbers =
  recommended_price :: npfloat
  price_change_percent :: npfloat

text \<open>
  The two reported numbers when the bounded price \<open>b\<close> is a Python float, for the current
  price \<open>c\<close>: the change is computed first, then both are rounded.
\<close>

definition report_python :: "npfloat \<Rightarrow> npfloat \<Rightarrow> py_error + pricing_numbers" where
  "report_python b c =
     bind_err (float64_div (float64_sub b c) c) (\<lambda>ratio.
       let change = float64_mul ratio (Num 100)
       in bind_err (python_round b 2) (\<lambda>price.
          bind_err (python_round change 2) (\<lambda>percent.
            Inr \<lparr>recommended_price = price, price_change_percent = percent\<rparr>)))"

text \<open>
  \<^verbatim>\<open>predict_pricing\<close> from the raw prediction to the two reported numbers. The bounds are
  products of Python floats; \<^verbatim>\<open>min\<close> and \<^verbatim>\<open>max\<close> return one of their arguments, so the
  bounded price is a bound or the numpy scalar itself.
\<close>

definition predict_pricing_post :: "pyval \<Rightarrow> np_scalar \<Rightarrow> py_error + pricing_numbers" where
  "predict_pricing_post current_price prediction =
     bind_err (as_double current_price) (\<lambda>c.
       let bounded = py_max (Py (float64_mul c (float64_round 0.8)))
                            (py_min (Py (float64_mul c (float64_round 1.3))) (Np prediction))
       in case bounded of
            Py b \<Rightarrow> report_python b c
          | Np r \<Rightarrow>
              bind_err (np_change_pct r current_price) (\<lambda>percent.
                Inr \<lparr>recommended_price = Num (np_round2 r),
                     price_change_percent = Num percent\<rparr>))"

record fraud_numbers =
  fraud_probability_pct :: real
  anomaly_score_rounded :: real
  fraud_flag :: bool
  recommended_action :: string
  reasons :: "string list"

text \<open>
  \<^verbatim>\<open>metadata.get('unsupervised_metrics', {}).get('anomaly_threshold', 0.7)\<close>
\<close>

definition anomaly_threshold :: "model_metadata \<Rightarrow> real" where
  "anomaly_threshold md =
     dict_get (opt_default (unsupervised_metrics md) []) ''anomaly_threshold'' 0.7"

text \<open>
  \<^verbatim>\<open>predict_fraud\<close> from the vector to the decision. \<open>supervised_model\<close> and
  \<open>isolation_forest\<close> are \<^verbatim>\<open>models.get(...)\<close>, each given by the number its scoring call
  returns: \<^verbatim>\<open>predict_proba(X)[0][1]\<close> and \<^verbatim>\<open>score_samples(X)[0]\<close>.
\<close>

definition predict_fraud_post ::
  "(npfloat list \<Rightarrow> real) option \<Rightarrow> (npfloat list \<Rightarrow> real) option \<Rightarrow> model_metadata
     \<Rightarrow> npfloat list \<Rightarrow> fraud_numbers" where
  "predict_fraud_post supervised_model isolation_forest md X =
     (let fraud_probability = (case supervised_model of None \<Rightarrow> 0 | Some m \<Rightarrow> m X);
          anomaly_score = (case isolation_forest of None \<Rightarrow> 0 | Some m \<Rightarrow> - m X);
          flag = (fraud_probability > 0.5 \<or> anomaly_score > anomaly_threshold md)
      in \<lparr>fraud_probability_pct = py_round (fraud_probability * 100) 2,
          anomaly_score_rounded = py_round anomaly_score 3,
          fraud_flag = flag,
          recommended_action =
            (if fraud_probability > 0.7 then ''block''
             else if flag then ''review'' else ''accept''),
          reasons = (if flag then [''high_amount'', ''geo_mismatch''] else [])\<rparr>)"



subsection \<open>Notions of the specification\<close>





text \<open>
  Later calls of \<open>load_model\<close>, each with the storage, the clock and the name of its
  moment: the program changes the state in no other way.
\<close>

fun load_models :: "state \<Rightarrow> (storage \<times> timestamp \<times> string) list \<Rightarrow> state" where
  "load_models s [] = s"
| "load_models s ((fs, now, model_name) # calls) =
     load_models (snd (load_model fs now s model_name)) calls"

text \<open>A reading of strings under which none spells a number, for payloads without strings.\<close>

definition no_string_numbers :: "string \<Rightarrow> npfloat option" where
  "no_string_numbers s = None"

text \<open>An empty models directory, and the state of a fresh process.\<close>

definition empty_storage :: storage where
  "empty_storage p = None"

definition initial_state :: state where
  "initial_state = \<lparr>LOADED_MODELS = (\<lambda>n. None), io_trace = []\<rparr>"

subsection \<open>Sample data\<close>

text \<open>A metadata document, a models directory holding one loadable model, and one whose
  model file does not unpickle.\<close>

definition md0 :: model_metadata where
  "md0 = \<lparr>feature_schema = Some [''amount''], model_version = Some ''v1'',
          evaluation_metrics = None,
          unsupervised_metrics = Some [(''anomaly_threshold'', 0.6)]\<rparr>"

definition demo_storage :: storage where
  "demo_storage =
     empty_storage(''models/demand_forecast.pkl'' \<mapsto> PickleFile (ObjDict []),
                   ''models/demand_forecast_metadata.json'' \<mapsto> JsonFile md0)"

definition broken_storage :: storage where
  "broken_storage = empty_storage(''models/demand_forecast.pkl'' \<mapsto> Garbage)"





section \<open>Properties\<close>

subsection \<open>License verification\<close>

lemma init_valid_iff:
  "is_valid (LicenseVerifier_init env key t0) \<longleftrightarrow>
     (\<exists>k. py_or key env = Some k \<and> length k > 20)"
  by (auto simp: LicenseVerifier_init_def verify_def truthy_def Let_def split: option.splits)

lemma init_valid_fields:
  assumes "is_valid (LicenseVerifier_init env key t0)"
  shows "expires_at (LicenseVerifier_init env key t0) = Some (t0 + timedelta_days 30)"
    and "features (LicenseVerifier_init env key t0) = licensed_features"
  using assms
  by (auto simp: LicenseVerifier_init_def verify_def truthy_def Let_def split: option.splits if_splits)

lemma init_invalid_fields:
  assumes "\<not> is_valid (LicenseVerifier_init env key t0)"
  shows "expires_at (LicenseVerifier_init env key t0) = None"
    and "features (LicenseVerifier_init env key t0) = []"
  using assms
  by (auto simp: LicenseVerifier_init_def verify_def truthy_def Let_def split: option.splits if_splits)

lemma licensed_get:
  "f \<in> fst ` set licensed_features \<Longrightarrow> dict_get licensed_features f False = True"
  by (auto simp: licensed_features_def dict_get_def)

text \<open>
  Claim C4, as the code has it. A verifier built from an accepted key expires 30 days
  after its construction, and for each of its features \<open>can_use_feature\<close>, asked at time
  \<open>now\<close>, answers with the clock of the call: true up to and including the instant of
  expiry, false after it.
\<close>

theorem can_use_feature_until_expiry:
  assumes "is_valid (LicenseVerifier_init env key t0)"
    and "feature \<in> fst ` set (features (LicenseVerifier_init env key t0))"
  shows "expires_at (LicenseVerifier_init env key t0) = Some (t0 + timedelta_days 30)
         \<and> (can_use_feature now (LicenseVerifier_init env key t0) feature
              \<longleftrightarrow> now \<le> t0 + timedelta_days 30)"
  using assms init_valid_fields[OF assms(1)]
  by (auto simp: can_use_feature_def licensed_get)

theorem can_use_feature_until_expiry_witness:
  "is_valid (LicenseVerifier_init None (Some ''ABCDEFGHIJKLMNOPQRSTU'') 0)
   \<and> ''dynamic_pricing'' \<in> fst ` set (features (LicenseVerifier_init None (Some ''ABCDEFGHIJKLMNOPQRSTU'') 0))
   \<and> expires_at (LicenseVerifier_init None (Some ''ABCDEFGHIJKLMNOPQRSTU'') 0) = Some 2592000000000
   \<and> can_use_feature 2592000000000 (LicenseVerifier_init None (Some ''ABCDEFGHIJKLMNOPQRSTU'') 0) ''dynamic_pricing''
   \<and> \<not> can_use_feature 2592000000001 (LicenseVerifier_init None (Some ''ABCDEFGHIJKLMNOPQRSTU'') 0) ''dynamic_pricing''"
proof -
  let ?v = "LicenseVerifier_init None (Some ''ABCDEFGHIJKLMNOPQRSTU'') 0"
  have v: "is_valid ?v"
    by (simp add: LicenseVerifier_init_def verify_def truthy_def py_or_def Let_def)
  have f: "''dynamic_pricing'' \<in> fst ` set (features ?v)"
    by (simp add: LicenseVerifier_init_def verify_def truthy_def py_or_def Let_def licensed_features_def)
  from can_use_feature_until_expiry[OF v f, of 2592000000000]
       can_use_feature_until_expiry[OF v f, of 2592000000001] v f
  show ?thesis by (simp add: timedelta_days_def)
qed

text \<open>
  At the instant of expiry itself the feature is still granted: the comparison of the
  source is strict.
\<close>

theorem can_use_feature_at_expiry_counterexample:
  "expires_at (LicenseVerifier_init None (Some ''ABCDEFGHIJKLMNOPQRSTU'') 0) = Some 2592000000000
   \<and> (2592000000000 :: int) \<ge> 2592000000000
   \<and> can_use_feature 2592000000000 (LicenseVerifier_init None (Some ''ABCDEFGHIJKLMNOPQRSTU'') 0) ''demand_forecasting''"
  by (simp add: LicenseVerifier_init_def verify_def truthy_def py_or_def Let_def
        licensed_features_def can_use_feature_def dict_get_def timedelta_days_def)

text \<open>
  Claim C5, as the code has it. A non-empty key of at most 20 characters is rejected;
  an absent or empty key is rejected when the environment holds no \<^verbatim>\<open>LICENSE_KEY\<close> or one
  of at most 20 characters. The rejected verifier is invalid, has no feature and no
  expiry, and refuses every feature at every time. The construction is a total function:
  it raises on no key.
\<close>

theorem short_or_absent_key_fails_closed:
  assumes "case key of
             Some k \<Rightarrow> length k \<le> 20 \<and> (k = [] \<longrightarrow> (case env of None \<Rightarrow> True | Some e \<Rightarrow> length e \<le> 20))
           | None \<Rightarrow> (case env of None \<Rightarrow> True | Some e \<Rightarrow> length e \<le> 20)"
  shows "\<not> is_valid (LicenseVerifier_init env key t0)
         \<and> features (LicenseVerifier_init env key t0) = []
         \<and> expires_at (LicenseVerifier_init env key t0) = None
         \<and> (\<forall>now feature. \<not> can_use_feature now (LicenseVerifier_init env key t0) feature)"
proof -
  have nv: "\<not> is_valid (LicenseVerifier_init env key t0)"
    using assms unfolding init_valid_iff
    by (auto simp: py_or_def truthy_def split: option.splits if_splits)
  with init_invalid_fields[OF nv] show ?thesis
    by (simp add: can_use_feature_def)
qed

theorem short_or_absent_key_fails_closed_witness:
  "\<not> is_valid (LicenseVerifier_init (Some ''ABCDEFGHIJKLMNOPQRSTU'') (Some ''short-key'') 0)
   \<and> \<not> can_use_feature 1 (LicenseVerifier_init (Some ''ABCDEFGHIJKLMNOPQRSTU'') (Some ''short-key'') 0) ''fraud_detection''
   \<and> \<not> is_valid (LicenseVerifier_init None None 0)
   \<and> \<not> can_use_feature 1 (LicenseVerifier_init None None 0) ''fraud_detection''"
proof -
  have h1: "case Some ''short-key'' of
             Some k \<Rightarrow> length k \<le> 20 \<and> (k = [] \<longrightarrow> (case Some ''ABCDEFGHIJKLMNOPQRSTU'' of None \<Rightarrow> True | Some e \<Rightarrow> length e \<le> 20))
           | None \<Rightarrow> (case Some ''ABCDEFGHIJKLMNOPQRSTU'' of None \<Rightarrow> True | Some e \<Rightarrow> length e \<le> 20)"
    by simp
  have h2: "case (None :: string option) of
             Some k \<Rightarrow> length k \<le> 20 \<and> (k = [] \<longrightarrow> (case (None :: string option) of None \<Rightarrow> True | Some e \<Rightarrow> length e \<le> 20))
           | None \<Rightarrow> (case (None :: string option) of None \<Rightarrow> True | Some e \<Rightarrow> length e \<le> 20)"
    by simp
  from short_or_absent_key_fails_closed[OF h1, of 0] short_or_absent_key_fails_closed[OF h2, of 0]
  show ?thesis by blast
qed

text \<open>
  Without a key in the request the constructor falls back to the environment: a long
  \<^verbatim>\<open>LICENSE_KEY\<close> there yields a valid verifier.
\<close>

theorem absent_key_env_fallback_counterexample:
  "is_valid (LicenseVerifier_init (Some ''ABCDEFGHIJKLMNOPQRSTU'') None 0)
   \<and> features (LicenseVerifier_init (Some ''ABCDEFGHIJKLMNOPQRSTU'') None 0) \<noteq> []
   \<and> can_use_feature 0 (LicenseVerifier_init (Some ''ABCDEFGHIJKLMNOPQRSTU'') None 0) ''fraud_detection''"
  by (simp add: LicenseVerifier_init_def verify_def truthy_def py_or_def Let_def
        licensed_features_def can_use_feature_def dict_get_def timedelta_days_def)

subsection \<open>Binary floating point\<close>

lemma pow2_powr: "pow2 k = 2 powr (of_int k)"
  by (simp add: pow2_def powr_int)

lemma pow2_pos: "0 < pow2 k"
  by (simp add: pow2_powr)



lemma floor_log2_eqI:
  assumes "pow2 k \<le> a" "a < pow2 (k + 1)"
  shows "\<lfloor>log 2 a\<rfloor> = k"
proof -
  have "0 < a" using assms(1) pow2_pos[of k] by linarith
  then show ?thesis
    using assms by (simp add: floor_log_eq_powr_iff pow2_powr)
qed




lemma round_half_even_eqI:
  "of_int n - 1 / 2 < y \<Longrightarrow> y < of_int n + 1 / 2 \<Longrightarrow> round_half_even y = n"
proof -
  assume a: "of_int n - 1 / 2 < y" "y < of_int n + 1 / 2"
  show ?thesis
  proof (cases "of_int n \<le> y")
    case True
    then have "\<lfloor>y\<rfloor> = n" using a by linarith
    then show ?thesis using a unfolding round_half_even_def Let_def by auto
  next
    case False
    then have "\<lfloor>y\<rfloor> = n - 1" using a by linarith
    then show ?thesis using a unfolding round_half_even_def Let_def by auto
  qed
qed

lemma ieee_round_eval:
  assumes "pow2 k \<le> \<bar>x\<bar>" "\<bar>x\<bar> < pow2 (k + 1)"
    and "e = max k emin"
    and "round_half_even (x / pow2 (e - int p + 1)) = n"
  shows "ieee_round p emin emax x =
           (if pow2 emax \<le> \<bar>of_int n * pow2 (e - int p + 1)\<bar>
            then (if 0 < x then PosInf else NegInf)
            else Num (of_int n * pow2 (e - int p + 1)))"
proof -
  have "x \<noteq> 0" using assms(1) pow2_pos[of k] by auto
  moreover have "\<lfloor>log 2 \<bar>x\<bar>\<rfloor> = k" by (rule floor_log2_eqI[OF assms(1,2)])
  ultimately show ?thesis
    using assms(3,4) by (simp add: ieee_round_def Let_def)
qed



















lemma ieee_round_0: "ieee_round p emin emax 0 = Num 0"
  by (simp add: ieee_round_def)

lemma float64_0: "float64_round 0 = Num 0"
  by (simp add: float64_round_def ieee_round_0)

lemma float32_0: "float32_round 0 = Num 0"
  by (simp add: float32_round_def ieee_round_0)









text \<open>An integer beyond the range of doubles.\<close>

lemma float64_huge: "float64_round (10 ^ 400) = PosInf"
proof -
  have e: "(1328 :: int) = max 1328 (- 1022)" by simp
  have r: "round_half_even (10 ^ 400 / pow2 (1328 - int 53 + 1)) = 7686445155841023"
    by (rule round_half_even_eqI) (simp_all add: pow2_def)
  have "ieee_round 53 (- 1022) 1024 (10 ^ 400) =
     (if pow2 1024 \<le> \<bar>of_int 7686445155841023 * pow2 (1328 - int 53 + 1)\<bar>
      then (if (0::real) < 10 ^ 400 then PosInf else NegInf)
      else Num (of_int 7686445155841023 * pow2 (1328 - int 53 + 1)))"
    by (rule ieee_round_eval[where k = 1328, OF _ _ e r]) (simp_all add: pow2_def)
  then show ?thesis by (simp add: float64_round_def pow2_def)
qed

subsection \<open>The feature vector\<close>

text \<open>The conversion of an integer beyond the doubles raises.\<close>

lemma np_float32_huge_int: "np_float32 c (PyInt (10 ^ 400)) = Inl OverflowError"
  using float64_huge by simp




lemma np_float32_default: "np_float32 c (PyInt 0) = Inr (Num 0)"
  by (simp add: float64_0 float32_0)












subsection \<open>The demand handler and the errors of the loader\<close>

lemma predict_demand_status:
  "fst (predict_demand c env fs now s header req) = Inl e \<Longrightarrow>
     status_code e = Some 403 \<or> status_code e = Some 500"
  by (auto simp: predict_demand_def Let_def split: if_splits prod.splits sum.splits)

text \<open>
  Claim C2, on the code. With an accepted license and an empty models directory,
  \<open>load_model\<close> raises status 404, and \<open>predict_demand\<close>, whose \<^verbatim>\<open>except Exception\<close>
  catches it, answers with status 500: the caller does not see the 404.
\<close>

theorem predict_demand_missing_model_500:
  "fst (load_model empty_storage 0 initial_state ''demand_forecast'')
     = Inl (HTTPException 404 (Model_not_found ''demand_forecast''))
   \<and> fst (predict_demand no_string_numbers None empty_storage 0 initial_state
            (Some ''ABCDEFGHIJKLMNOPQRSTU'') [])
     = Inl (HTTPException 500
             (Prediction_error (HTTPException 404 (Model_not_found ''demand_forecast''))))"
  by (simp add: predict_demand_def verify_license_def LicenseVerifier_init_def verify_def
        truthy_def py_or_def Let_def licensed_features_def can_use_feature_def dict_get_def
        timedelta_days_def load_model_def initial_state_def empty_storage_def traced_def
        path_exists_def)

subsection \<open>The model cache\<close>

lemma load_model_cached:
  "LOADED_MODELS s n = Some a \<Longrightarrow> load_model fs now s n = (Inr a, s)"
  by (simp add: load_model_def)

lemma load_model_success_caches:
  assumes "load_model fs now s n = (Inr a, s')"
  shows "LOADED_MODELS s' n = Some a"
  using assms
  by (auto simp: load_model_def Let_def traced_def split: option.splits if_splits sum.splits)

lemma load_model_cache_effect:
  "LOADED_MODELS (snd (load_model fs now s n)) =
     (case fst (load_model fs now s n) of
        Inl e \<Rightarrow> LOADED_MODELS s
      | Inr a \<Rightarrow> (LOADED_MODELS s)(n \<mapsto> a))"
  by (auto simp: load_model_def Let_def traced_def fun_upd_idem split: option.splits sum.splits)

lemma load_model_failure_uncached:
  assumes "load_model fs now s n = (Inl e, s')"
  shows "LOADED_MODELS s n = None"
  using assms by (auto simp: load_model_def split: option.splits)

lemma load_model_uncached_trace:
  assumes "LOADED_MODELS s n = None"
  shows "\<exists>rest. io_trace (snd (load_model fs now s n)) = io_trace s @ Exists (model_path n) # rest"
  using assms
  by (auto simp: load_model_def Let_def traced_def split: option.splits sum.splits)

lemma load_model_keeps_entry:
  assumes "LOADED_MODELS s n = Some a"
  shows "LOADED_MODELS (snd (load_model fs now s m)) n = Some a"
proof (cases "m = n")
  case True
  then show ?thesis using assms by (simp add: load_model_cached)
next
  case False
  have "LOADED_MODELS s m = None \<or> (\<exists>b. LOADED_MODELS s m = Some b)" by auto
  then show ?thesis
    using False assms load_model_cache_effect[of fs now s m]
    by (auto split: sum.splits)
qed

lemma load_models_keeps_entry:
  "LOADED_MODELS s n = Some a \<Longrightarrow> LOADED_MODELS (load_models s calls) n = Some a"
proof (induction calls arbitrary: s)
  case Nil
  then show ?case by simp
next
  case (Cons call calls)
  obtain fs now m where call: "call = (fs, now, m)" by (cases call) auto
  show ?case
    unfolding call load_models.simps
    by (rule Cons.IH[OF load_model_keeps_entry[OF Cons.prems]])
qed

lemma demo_load:
  "load_model demo_storage 5 initial_state ''demand_forecast'' =
     (Inr \<lparr>model = ObjDict [], metadata = md0, loaded_at = 5\<rparr>,
      \<lparr>LOADED_MODELS = (\<lambda>n. None)(''demand_forecast'' \<mapsto>
           \<lparr>model = ObjDict [], metadata = md0, loaded_at = 5\<rparr>),
       io_trace = [Exists ''models/demand_forecast.pkl'', Open ''models/demand_forecast.pkl'',
                   Open ''models/demand_forecast_metadata.json'']\<rparr>)"
  by (simp add: load_model_def demo_storage_def initial_state_def empty_storage_def traced_def
        path_exists_def pickle_load_def json_load_def model_path_def metadata_path_def Let_def)

text \<open>
  Claim C9. Once \<open>load_model\<close> has returned an artifact for a name, every later call for
  that name returns the same artifact and leaves the state as it finds it, so performs
  no storage operation: whatever calls of \<open>load_model\<close>, for whatever names, have come
  in between, and whatever the storage holds by then.
\<close>

theorem load_model_second_get_cached:
  assumes "load_model fs now s model_name = (Inr a, s')"
  shows "load_model fs' now' (load_models s' calls) model_name = (Inr a, load_models s' calls)
         \<and> io_trace (snd (load_model fs' now' (load_models s' calls) model_name))
             = io_trace (load_models s' calls)
         \<and> load_model fs' now' s' model_name = (Inr a, s')"
proof -
  have c: "LOADED_MODELS s' model_name = Some a" by (rule load_model_success_caches[OF assms])
  have "load_model fs' now' (load_models s' calls) model_name = (Inr a, load_models s' calls)"
    by (rule load_model_cached[OF load_models_keeps_entry[OF c]])
  moreover have "load_model fs' now' s' model_name = (Inr a, s')"
    by (rule load_model_cached[OF c])
  ultimately show ?thesis by simp
qed

theorem load_model_second_get_cached_witness:
  "fst (load_model demo_storage 5 initial_state ''demand_forecast'')
     = Inr \<lparr>model = ObjDict [], metadata = md0, loaded_at = 5\<rparr>
   \<and> fst (load_model empty_storage 9
            (load_models (snd (load_model demo_storage 5 initial_state ''demand_forecast''))
               [(empty_storage, 6, ''guest_churn''), (broken_storage, 7, ''demand_forecast''),
                (demo_storage, 8, ''dynamic_pricing'')])
            ''demand_forecast'')
     = Inr \<lparr>model = ObjDict [], metadata = md0, loaded_at = 5\<rparr>
   \<and> snd (load_model empty_storage 9
            (load_models (snd (load_model demo_storage 5 initial_state ''demand_forecast''))
               [(empty_storage, 6, ''guest_churn''), (broken_storage, 7, ''demand_forecast''),
                (demo_storage, 8, ''dynamic_pricing'')])
            ''demand_forecast'')
     = load_models (snd (load_model demo_storage 5 initial_state ''demand_forecast''))
               [(empty_storage, 6, ''guest_churn''), (broken_storage, 7, ''demand_forecast''),
                (demo_storage, 8, ''dynamic_pricing'')]"
  using load_model_second_get_cached[OF demo_load, of empty_storage 9
          "[(empty_storage, 6, ''guest_churn''), (broken_storage, 7, ''demand_forecast''),
            (demo_storage, 8, ''dynamic_pricing'')]"]
  by (simp add: demo_load)

text \<open>
  Claim C10. A call of \<open>load_model\<close> changes the cache only by inserting the artifact it
  returns. A call that raises leaves the cache as it was, the name is still absent from
  it, and the next call for the name goes to the storage again: it starts by testing
  the model file.
\<close>

theorem load_model_failure_leaves_cache:
  "LOADED_MODELS (snd (load_model fs now s model_name)) =
     (case fst (load_model fs now s model_name) of
        Inl e \<Rightarrow> LOADED_MODELS s
      | Inr a \<Rightarrow> (LOADED_MODELS s)(model_name \<mapsto> a))
   \<and> (\<forall>e. fst (load_model fs now s model_name) = Inl e \<longrightarrow>
         LOADED_MODELS (snd (load_model fs now s model_name)) model_name = None
         \<and> (\<forall>fs' now'. \<exists>rest.
              io_trace (snd (load_model fs' now' (snd (load_model fs now s model_name)) model_name))
                = io_trace (snd (load_model fs now s model_name))
                  @ Exists (model_path model_name) # rest))"
proof (intro conjI allI impI)
  show "LOADED_MODELS (snd (load_model fs now s model_name)) =
     (case fst (load_model fs now s model_name) of
        Inl e \<Rightarrow> LOADED_MODELS s
      | Inr a \<Rightarrow> (LOADED_MODELS s)(model_name \<mapsto> a))"
    by (rule load_model_cache_effect)
next
  fix e assume e: "fst (load_model fs now s model_name) = Inl e"
  then have l: "load_model fs now s model_name = (Inl e, snd (load_model fs now s model_name))"
    by (simp add: prod_eq_iff)
  have "LOADED_MODELS s model_name = None" by (rule load_model_failure_uncached[OF l])
  with load_model_cache_effect[of fs now s model_name] e
  show n: "LOADED_MODELS (snd (load_model fs now s model_name)) model_name = None" by simp
  fix fs' now'
  show "\<exists>rest.
              io_trace (snd (load_model fs' now' (snd (load_model fs now s model_name)) model_name))
                = io_trace (snd (load_model fs now s model_name))
                  @ Exists (model_path model_name) # rest"
    by (rule load_model_uncached_trace[OF n])
qed

theorem load_model_failure_leaves_cache_witness:
  "fst (load_model empty_storage 5 initial_state ''demand_forecast'')
     = Inl (HTTPException 404 (Model_not_found ''demand_forecast''))
   \<and> fst (load_model broken_storage 5 initial_state ''demand_forecast'')
     = Inl (HTTPException 500 (Error_loading_model (PyError UnpicklingError)))
   \<and> LOADED_MODELS (snd (load_model empty_storage 5 initial_state ''demand_forecast''))
     = LOADED_MODELS initial_state
   \<and> LOADED_MODELS (snd (load_model broken_storage 5 initial_state ''demand_forecast''))
     = LOADED_MODELS initial_state"
proof -
  have a: "fst (load_model empty_storage 5 initial_state ''demand_forecast'')
     = Inl (HTTPException 404 (Model_not_found ''demand_forecast''))"
    by (simp add: load_model_def initial_state_def empty_storage_def traced_def
        path_exists_def Let_def)
  have b: "fst (load_model broken_storage 5 initial_state ''demand_forecast'')
     = Inl (HTTPException 500 (Error_loading_model (PyError UnpicklingError)))"
    by (simp add: load_model_def initial_state_def empty_storage_def broken_storage_def
        traced_def path_exists_def pickle_load_def model_path_def Let_def)
  from a b load_model_failure_leaves_cache[of empty_storage 5 initial_state "''demand_forecast''"]
       load_model_failure_leaves_cache[of broken_storage 5 initial_state "''demand_forecast''"]
  show ?thesis by simp
qed

subsection \<open>Pricing\<close>










text \<open>An integer current price beyond the doubles raises at the first product.\<close>

lemma predict_pricing_post_huge_int:
  "predict_pricing_post (PyInt (10 ^ 400)) r = Inl OverflowError"
  using float64_huge by (simp add: predict_pricing_post_def bind_err_def)




subsection \<open>Fraud\<close>

text \<open>
  Claim C7. With \<open>p\<close> the supervised probability (0 without a supervised model), \<open>a\<close>
  the negated outlier score (0 without an anomaly model) and the threshold stored in
  the metadata (0.7 when it is not stored), the flag is \<open>p > 0.5 \<or> a > threshold\<close>, and
  the action is block if \<open>p > 0.7\<close>, else review if the flag is set, else accept.
\<close>

theorem predict_fraud_post_decision:
  "fraud_flag (predict_fraud_post supervised_model isolation_forest md X) =
     ((case supervised_model of None \<Rightarrow> 0 | Some m \<Rightarrow> m X) > 0.5
      \<or> (case isolation_forest of None \<Rightarrow> 0 | Some m \<Rightarrow> - m X)
          > (case unsupervised_metrics md of
               None \<Rightarrow> 0.7
             | Some um \<Rightarrow> (case map_of um ''anomaly_threshold'' of None \<Rightarrow> 0.7 | Some t \<Rightarrow> t)))
   \<and> recommended_action (predict_fraud_post supervised_model isolation_forest md X) =
     (if (case supervised_model of None \<Rightarrow> 0 | Some m \<Rightarrow> m X) > 0.7 then ''block''
      else if fraud_flag (predict_fraud_post supervised_model isolation_forest md X)
           then ''review'' else ''accept'')"
  by (auto simp: predict_fraud_post_def Let_def anomaly_threshold_def dict_get_def
        opt_default_def split: option.splits)

theorem predict_fraud_post_decision_witness:
  "recommended_action (predict_fraud_post (Some (\<lambda>X. 0.8)) None md0 []) = ''block''
   \<and> recommended_action (predict_fraud_post (Some (\<lambda>X. 0.6)) (Some (\<lambda>X. - 0.65)) md0 []) = ''review''
   \<and> recommended_action (predict_fraud_post (Some (\<lambda>X. 0.1)) (Some (\<lambda>X. - 0.5)) md0 []) = ''accept''
   \<and> fraud_flag (predict_fraud_post None (Some (\<lambda>X. - 0.65)) md0 [])"
  using predict_fraud_post_decision[of "Some (\<lambda>X. 0.8)" None md0 "[]"]
        predict_fraud_post_decision[of "Some (\<lambda>X. 0.6)" "Some (\<lambda>X. - 0.65)" md0 "[]"]
        predict_fraud_post_decision[of "Some (\<lambda>X. 0.1)" "Some (\<lambda>X. - 0.5)" md0 "[]"]
        predict_fraud_post_decision[of None "Some (\<lambda>X. - 0.65)" md0 "[]"]
  by (simp add: md0_def)

subsection \<open>Churn\<close>



end
